theory Spec2Isabelle
  imports Main "HOL-Library.Word"
begin

section \<open>The query client of client/rpc/dex\_client.go\<close>

text \<open>
  The client turns typed queries into calls of two transport primitives
  (\<open>ABCIQuery\<close>, a query by path and opaque bytes, and \<open>QueryStore\<close>, a read by raw key
  in a named store) and decodes the bytes that come back with the wire codec.
  Transport, codec, validators and the address text encoding are collaborators: they
  are parameters of the model. Every source function becomes a HOL function of the
  same name that takes the trace of collaborator calls made so far and returns what the
  Go function returns (or that it panics) together with the extended trace.
\<close>

subsection \<open>Bytes, errors, outcomes\<close>

type_synonym byte = "8 word"

text \<open>A Go \<open>[]byte\<close>: \<open>None\<close> is the nil slice, \<open>Some []\<close> the empty slice that is not nil.\<close>

type_synonym bytes = "byte list option"

definition len :: "bytes \<Rightarrow> nat" where
  "len bz = (case bz of None \<Rightarrow> 0 | Some xs \<Rightarrow> length xs)"

definition elems :: "bytes \<Rightarrow> byte list" where
  "elems bz = (case bz of None \<Rightarrow> [] | Some xs \<Rightarrow> xs)"

text \<open>The conversions \<open>[]byte(s)\<close> and \<open>string(bz)\<close>.\<close>

definition bytes_of_string :: "string \<Rightarrow> byte list" where
  "bytes_of_string s = map of_char s"

definition string_of_bytes :: "bytes \<Rightarrow> string" where
  "string_of_bytes bz = map (\<lambda>b. char_of (unat b)) (elems bz)"

text \<open>
  A Go error value. Error values are compared by identity, so an error made in this
  file by \<open>errors.New\<close> or \<open>fmt.Errorf\<close> is never the error a collaborator handed
  over, even when the two print the same text: \<open>Foreign\<close> is a collaborator's error
  (known by its text only), the other two are the errors this file makes.
\<close>

datatype error = Foreign string | ErrorsNew string | Errorf string

text \<open>\<open>if err != nil { return nil, err }\<close> hands a collaborator's error over unchanged.\<close>

definition handed :: "string option \<Rightarrow> error option" where
  "handed err = map_option Foreign err"

text \<open>
  A call either returns its results or panics (a nil dereference, a failed type
  assertion): the Go runtime aborts the call and nothing is returned.
\<close>

datatype 'a outcome = Return 'a | Panic

subsection \<open>The transport\<close>

text \<open>
  \<open>abci.ResponseQuery\<close> and \<open>ResultABCIQuery\<close> are types of the transport library;
  the source reads the fields \<open>Code\<close>, \<open>Log\<close> and \<open>Value\<close>, and calls \<open>IsOK\<close>
  (the status code is the success code 0) and \<open>GetValue\<close>.
\<close>

record ResponseQuery =
  Code :: "32 word"
  Log :: string
  Value :: bytes

record ResultABCIQuery =
  Response :: ResponseQuery

definition IsOK :: "ResponseQuery \<Rightarrow> bool" where
  "IsOK r = (Code r = 0)"

definition GetValue :: "ResponseQuery \<Rightarrow> bytes" where
  "GetValue r = Value r"

definition AccountStoreName :: string where
  "AccountStoreName = ''acc''"

definition ParamABCIPrefix :: string where
  "ParamABCIPrefix = ''param''"

definition TimeLockMsgRoute :: string where
  "TimeLockMsgRoute = ''timelock''"

definition AtomicSwapStoreName :: string where
  "AtomicSwapStoreName = ''atomic_swap''"

definition TimeLockrcNotFoundErrorCode :: "32 word" where
  "TimeLockrcNotFoundErrorCode = 458760"

datatype discipline = BinaryLengthPrefixed | BinaryBare | JSON

text \<open>
  What the client did to its collaborators, in order: the transport calls it made, the
  bytes it handed to the codec for decoding, and what it printed.
\<close>

datatype event =
    ABCIQueryCall string bytes
  | QueryStoreCall bytes string
  | TxInfoSearchCall string bool int int
  | UnmarshalCall discipline bytes
  | PrintlnCall string

type_synonym trace = "event list"

fun is_transport :: "event \<Rightarrow> bool" where
  "is_transport (ABCIQueryCall p d) = True"
| "is_transport (QueryStoreCall k s) = True"
| "is_transport (TxInfoSearchCall q p n m) = True"
| "is_transport (UnmarshalCall d b) = False"
| "is_transport (PrintlnCall s) = False"

definition transport_calls :: "trace \<Rightarrow> event list" where
  "transport_calls t = filter is_transport t"

text \<open>
  The parameters of the custom-module queries, as the source fills them in before
  \<open>c.cdc.MarshalJSON\<close>. An address (\<open>types.AccAddress\<close>) and a hash
  (\<open>types.HexData\<close>) are byte slices; a status is a byte; \<open>int64\<close> is \<open>int\<close>.
\<close>

datatype query_params =
    QueryTimeLocksParams bytes
  | QueryTimeLockParams bytes int
  | QueryProposalsParams byte int
  | QueryProposalParams int
  | QuerySwapByCreatorParams bytes byte int int
  | QuerySwapByRecipientParams bytes byte int int

text \<open>
  The client \<open>c\<close>: its two transport primitives and the JSON encoder of its codec.
  The answer of the remote node may depend on everything asked before, so a primitive
  reads the trace. A collaborator returns Go's pair of a value and an error (\<open>None\<close>
  is the nil error); \<open>ABCIQuery\<close> returns a pointer, \<open>None\<close> being nil.
\<close>

record HTTP =
  ABCIQuery :: "trace \<Rightarrow> string \<Rightarrow> bytes \<Rightarrow> ResultABCIQuery option \<times> string option"
  QueryStore :: "trace \<Rightarrow> bytes \<Rightarrow> string \<Rightarrow> bytes \<times> string option"
  MarshalJSON :: "query_params \<Rightarrow> bytes \<times> string option"

text \<open>
  A decoder of the codec at one target type: from the bytes to the target after the
  call (the target before the call is the value the source initialises it with) and
  the error.
\<close>

type_synonym 'a unmarshal = "bytes \<Rightarrow> 'a \<times> string option"

definition callABCIQuery ::
  "HTTP \<Rightarrow> string \<Rightarrow> bytes \<Rightarrow> trace \<Rightarrow> (ResultABCIQuery option \<times> string option) \<times> trace" where
  "callABCIQuery c path data t = (ABCIQuery c t path data, t @ [ABCIQueryCall path data])"

definition callQueryStore ::
  "HTTP \<Rightarrow> bytes \<Rightarrow> string \<Rightarrow> trace \<Rightarrow> (bytes \<times> string option) \<times> trace" where
  "callQueryStore c key storeName t = (QueryStore c t key storeName, t @ [QueryStoreCall key storeName])"

definition callUnmarshal ::
  "discipline \<Rightarrow> 'a unmarshal \<Rightarrow> bytes \<Rightarrow> trace \<Rightarrow> ('a \<times> string option) \<times> trace" where
  "callUnmarshal d cdc bz t = (cdc bz, t @ [UnmarshalCall d bz])"

subsection \<open>Package-level collaborators\<close>

text \<open>
  Functions and constants of the repository outside this file: the validators of
  client/rpc, the address text encoding and swap status of common/types, the route of
  types/msg. They are parameters.
\<close>

record pkg =
  ValidateTxSearchQueryStr :: "string \<Rightarrow> string option"
  ValidateOffset :: "int \<Rightarrow> string option"
  ValidateLimit :: "int \<Rightarrow> string option"
  ValidateSymbol :: "string \<Rightarrow> string option"
  ValidatePair :: "string \<Rightarrow> string option"
  ValidateDepthLevel :: "int \<Rightarrow> string option"
  AccAddressFromBech32 :: "string \<Rightarrow> bytes \<times> string option"
  AccAddress_String :: "bytes \<Rightarrow> string"
  NewSwapStatusFromString :: "string \<Rightarrow> byte"
  StatusNil :: byte
  AtomicSwapRoute :: string

subsection \<open>Formatting with \<open>%d\<close>\<close>

definition digit :: "nat \<Rightarrow> char" where
  "digit n = char_of (48 + n)"

function decimal :: "nat \<Rightarrow> string" where
  "decimal n = (if n < 10 then [digit n] else decimal (n div 10) @ [digit (n mod 10)])"
  by pat_completeness auto
termination
  by (relation "measure id") auto

declare decimal.simps [simp del]

definition Sprintf_d :: "int \<Rightarrow> string" where
  "Sprintf_d i = (if i < 0 then CHR ''-'' # decimal (nat (- i)) else decimal (nat i))"

subsection \<open>Accounts and balances\<close>

text \<open>
  Modelled from the spec: \<open>types.Coin\<close>, \<open>types.Coins\<close> with \<open>AmountOf\<close>,
  \<open>types.Account\<close>, \<open>types.NamedAccount\<close> and \<open>types.TokenBalance\<close> are declared
  in common/types, outside this file. An account holds a total coin mapping, and a
  named account a locked and a frozen one besides; \<open>AmountOf\<close> is the amount of a
  symbol in a mapping, 0 when the symbol is not in it. The source ranges over the coins
  in order, so they are kept as a list.
\<close>

record Coin =
  Denom :: string
  Amount :: int

type_synonym Coins = "Coin list"

fun AmountOf :: "Coins \<Rightarrow> string \<Rightarrow> int" where
  "AmountOf [] denom = 0"
| "AmountOf (coin # coins) denom =
     (if Denom coin = denom then Amount coin else AmountOf coins denom)"

record named_account =
  Coins_of :: Coins
  LockedCoins :: Coins
  FrozenCoins :: Coins

datatype Account = PlainAccount Coins | NamedAccount named_account

fun GetCoins :: "Account \<Rightarrow> Coins" where
  "GetCoins (PlainAccount coins) = coins"
| "GetCoins (NamedAccount n) = Coins_of n"

text \<open>
  The type assertion \<open>account.(types.NamedAccount)\<close> in its one-result form: it panics
  on the nil interface and on an account that is not a named one.
\<close>

fun assert_NamedAccount :: "Account option \<Rightarrow> named_account outcome" where
  "assert_NamedAccount None = Panic"
| "assert_NamedAccount (Some (PlainAccount coins)) = Panic"
| "assert_NamedAccount (Some (NamedAccount n)) = Return n"

record TokenBalance =
  Symbol :: string
  Free :: int
  Locked :: int
  Frozen :: int

subsection \<open>The queries\<close>

definition GetCommitAccount ::
  "HTTP \<Rightarrow> Account option unmarshal \<Rightarrow> bytes \<Rightarrow> trace
     \<Rightarrow> (Account option \<times> error option) outcome \<times> trace" where
  "GetCommitAccount c UnmarshalBinaryBare addr t =
     (let key = Some (bytes_of_string ''account:'' @ elems addr);
          ((bz, err), t1) = callQueryStore c key AccountStoreName t
      in if err \<noteq> None then (Return (None, handed err), t1)
         else if bz = None then (Return (None, None), t1)
         else
           (let ((acc, err), t2) = callUnmarshal BinaryBare UnmarshalBinaryBare bz t1
            in if err \<noteq> None then (Return (None, handed err), t2)
               else (Return (acc, handed err), t2)))"

definition GetAccount ::
  "HTTP \<Rightarrow> pkg \<Rightarrow> Account option unmarshal \<Rightarrow> bytes \<Rightarrow> trace
     \<Rightarrow> (Account option \<times> error option) outcome \<times> trace" where
  "GetAccount c p UnmarshalBinaryBare addr t =
     (let ((result, err), t1) = callABCIQuery c (''/account/'' @ AccAddress_String p addr) None t
      in if err \<noteq> None then (Return (None, handed err), t1)
         else case result of
           None \<Rightarrow> (Panic, t1)
         | Some result \<Rightarrow>
             (let resp = Response result
              in if \<not> IsOK resp then (Return (None, Some (ErrorsNew (Log resp))), t1)
                 else
                   (let value = GetValue (Response result)
                    in if len value = 0 then (Return (None, None), t1)
                       else
                         (let ((acc, err), t2) = callUnmarshal BinaryBare UnmarshalBinaryBare value t1
                          in if err \<noteq> None then (Return (None, handed err), t2)
                             else (Return (acc, handed err), t2)))))"

definition GetTimelock ::
  "HTTP \<Rightarrow> 'rec unmarshal \<Rightarrow> bytes \<Rightarrow> int \<Rightarrow> trace
     \<Rightarrow> ('rec option \<times> error option) outcome \<times> trace" where
  "GetTimelock c UnmarshalJSON addr recordID t =
     (let params = QueryTimeLockParams addr recordID;
          (bz, err) = MarshalJSON c params
      in case err of
           Some e \<Rightarrow> (Return (None, Some (Errorf (''incorrectly formatted request data '' @ e))), t)
         | None \<Rightarrow>
             (let ((rawRecord, err), t1) =
                    callABCIQuery c (''custom/'' @ TimeLockMsgRoute @ ''/'' @ ''timelock'') bz t
              in case err of
                   Some e \<Rightarrow> (Return (None, Some (Errorf (''error query '' @ e))), t1)
                 | None \<Rightarrow>
                     (case rawRecord of
                        None \<Rightarrow> (Panic, t1)
                      | Some rawRecord \<Rightarrow>
                          if Code (Response rawRecord) = TimeLockrcNotFoundErrorCode
                          then (Return (None, None), t1)
                          else
                            (let ((record, err), t2) =
                                   callUnmarshal JSON UnmarshalJSON (GetValue (Response rawRecord)) t1
                             in if err \<noteq> None then (Return (None, handed err), t2)
                                else (Return (Some record, None), t2)))))"

text \<open>
  \<open>types.AtomicSwap\<close> is a struct declared outside this file; \<open>zero\<close> stands for its
  zero value \<open>types.AtomicSwap{}\<close>.
\<close>

definition GetSwapByHash ::
  "HTTP \<Rightarrow> 'swap \<Rightarrow> 'swap unmarshal \<Rightarrow> bytes \<Rightarrow> trace
     \<Rightarrow> ('swap \<times> error option) outcome \<times> trace" where
  "GetSwapByHash c zero UnmarshalBinaryBare randomNumberHash t =
     (let hashKey = Some [0x01 :: byte];
          hashKey = Some (elems hashKey @ elems randomNumberHash);
          ((res, err), t1) = callQueryStore c hashKey AtomicSwapStoreName t
      in if err \<noteq> None then (Return (zero, handed err), t1)
         else if res = None then (Return (zero, Some (Errorf ''no matched swap record'')), t1)
         else
           (let ((atomicSwap, err), t2) = callUnmarshal BinaryBare UnmarshalBinaryBare res t1
            in if err \<noteq> None then (Return (zero, handed err), t2)
               else (Return (atomicSwap, None), t2)))"

text \<open>
  \<open>c.WSEvents.TxInfoSearch\<close> is the transport's search; it returns typed results.
\<close>

definition TxInfoSearch ::
  "(trace \<Rightarrow> string \<Rightarrow> bool \<Rightarrow> int \<Rightarrow> int \<Rightarrow> 'tx list option \<times> string option) \<Rightarrow> pkg
     \<Rightarrow> string \<Rightarrow> bool \<Rightarrow> int \<Rightarrow> int \<Rightarrow> trace
     \<Rightarrow> ('tx list option \<times> error option) outcome \<times> trace" where
  "TxInfoSearch WSEvents_TxInfoSearch p query prove page perPage t =
     (let err = ValidateTxSearchQueryStr p query
      in if err \<noteq> None then (Return (None, handed err), t)
         else
           (let (infos, err) = WSEvents_TxInfoSearch t query prove page perPage
            in (Return (infos, handed err), t @ [TxInfoSearchCall query prove page perPage])))"

definition ListAllTokens ::
  "HTTP \<Rightarrow> pkg \<Rightarrow> 'token list option unmarshal \<Rightarrow> int \<Rightarrow> int \<Rightarrow> trace
     \<Rightarrow> ('token list option \<times> error option) outcome \<times> trace" where
  "ListAllTokens c p UnmarshalBinaryLengthPrefixed offset limit t =
     (let err = ValidateOffset p offset
      in if err \<noteq> None then (Return (None, handed err), t)
         else
           (let err = ValidateLimit p limit
            in if err \<noteq> None then (Return (None, handed err), t)
               else
                 (let path = ''tokens/list/'' @ Sprintf_d offset @ ''/'' @ Sprintf_d limit;
                      ((result, err), t1) = callABCIQuery c path None t
                  in if err \<noteq> None then (Return (None, handed err), t1)
                     else case result of
                       None \<Rightarrow> (Panic, t1)
                     | Some result \<Rightarrow>
                         (let bz = GetValue (Response result);
                              ((tokens, err), t2) =
                                callUnmarshal BinaryLengthPrefixed UnmarshalBinaryLengthPrefixed bz t1
                          in (Return (tokens, handed err), t2)))))"

text \<open>\<open>new(types.Token)\<close> is never nil: the pointer is returned also beside an error.\<close>

definition GetTokenInfo ::
  "HTTP \<Rightarrow> pkg \<Rightarrow> 'token unmarshal \<Rightarrow> string \<Rightarrow> trace
     \<Rightarrow> ('token option \<times> error option) outcome \<times> trace" where
  "GetTokenInfo c p UnmarshalBinaryLengthPrefixed symbol t =
     (let err = ValidateSymbol p symbol
      in if err \<noteq> None then (Return (None, handed err), t)
         else
           (let path = ''tokens/info/'' @ symbol;
                ((result, err), t1) = callABCIQuery c path None t
            in if err \<noteq> None then (Return (None, handed err), t1)
               else case result of
                 None \<Rightarrow> (Panic, t1)
               | Some result \<Rightarrow>
                   (let bz = GetValue (Response result);
                        ((token, err), t2) =
                          callUnmarshal BinaryLengthPrefixed UnmarshalBinaryLengthPrefixed bz t1
                    in (Return (Some token, handed err), t2))))"

text \<open>
  The loop of \<open>GetBalances\<close> over the coins, with the balances appended so far. The
  type assertion is made in every round; where it succeeds \<open>nacc\<close> is not nil, so the
  branch \<open>if nacc != nil\<close> is always taken.
\<close>

fun GetBalances_loop ::
  "Account option \<Rightarrow> Coins \<Rightarrow> Coin list \<Rightarrow> TokenBalance list \<Rightarrow> TokenBalance list outcome" where
  "GetBalances_loop account coins [] bals = Return bals"
| "GetBalances_loop account coins (coin # rest) bals =
     (case assert_NamedAccount account of
        Panic \<Rightarrow> Panic
      | Return nacc \<Rightarrow>
          (let locked = AmountOf (LockedCoins nacc) (Denom coin);
               frozen = AmountOf (FrozenCoins nacc) (Denom coin)
           in GetBalances_loop account coins rest
                (bals @ [\<lparr>Symbol = Denom coin, Free = AmountOf coins (Denom coin),
                          Locked = locked, Frozen = frozen\<rparr>])))"

text \<open>\<open>account.GetCoins()\<close> on the nil interface panics.\<close>

definition GetBalances ::
  "HTTP \<Rightarrow> pkg \<Rightarrow> Account option unmarshal \<Rightarrow> bytes \<Rightarrow> trace
     \<Rightarrow> (TokenBalance list option \<times> error option) outcome \<times> trace" where
  "GetBalances c p UnmarshalBinaryBare addr t =
     (let (r, t1) = GetAccount c p UnmarshalBinaryBare addr t
      in case r of
           Panic \<Rightarrow> (Panic, t1)
         | Return (account, err) \<Rightarrow>
             if err \<noteq> None then (Return (None, err), t1)
             else case account of
               None \<Rightarrow> (Panic, t1)
             | Some a \<Rightarrow>
                 (let coins = GetCoins a
                  in case GetBalances_loop account coins coins [] of
                       Panic \<Rightarrow> (Panic, t1)
                     | Return bals \<Rightarrow> (Return (Some bals, None), t1)))"

definition existsCC ::
  "HTTP \<Rightarrow> 'token unmarshal \<Rightarrow> string \<Rightarrow> trace \<Rightarrow> bool outcome \<times> trace" where
  "existsCC c UnmarshalBinaryLengthPrefixed symbol t =
     (let ((resp, err), t1) = callABCIQuery c (''tokens/info/'' @ symbol) None t
      in if err \<noteq> None then (Return False, t1)
         else case resp of
           None \<Rightarrow> (Panic, t1)
         | Some resp \<Rightarrow>
             if \<not> IsOK (Response resp) then (Return False, t1)
             else if len (GetValue (Response resp)) = 0 then (Return False, t1)
             else
               (let ((token, err), t2) =
                      callUnmarshal BinaryLengthPrefixed UnmarshalBinaryLengthPrefixed
                        (GetValue (Response resp)) t1
                in if err \<noteq> None then (Return False, t2)
                   else (Return True, t2)))"

definition GetBalance ::
  "HTTP \<Rightarrow> pkg \<Rightarrow> 'token unmarshal \<Rightarrow> Account option unmarshal \<Rightarrow> bytes \<Rightarrow> string \<Rightarrow> trace
     \<Rightarrow> (TokenBalance option \<times> error option) outcome \<times> trace" where
  "GetBalance c p UnmarshalBinaryLengthPrefixed UnmarshalBinaryBare addr symbol t =
     (let err = ValidateSymbol p symbol
      in if err \<noteq> None then (Return (None, handed err), t)
         else
           (let (exist, t1) = existsCC c UnmarshalBinaryLengthPrefixed symbol t
            in case exist of
                 Panic \<Rightarrow> (Panic, t1)
               | Return exist \<Rightarrow>
                   if \<not> exist then (Return (None, Some (ErrorsNew ''symbol not found'')), t1)
                   else
                     (let (r, t2) = GetAccount c p UnmarshalBinaryBare addr t1
                      in case r of
                           Panic \<Rightarrow> (Panic, t2)
                         | Return (acc, err) \<Rightarrow>
                             if err \<noteq> None then (Return (None, err), t2)
                             else case assert_NamedAccount acc of
                               Panic \<Rightarrow> (Panic, t2)
                             | Return nacc \<Rightarrow>
                                 (let locked = AmountOf (LockedCoins nacc) symbol;
                                      frozen = AmountOf (FrozenCoins nacc) symbol
                                  in (Return (Some \<lparr>Symbol = symbol,
                                                     Free = AmountOf (Coins_of nacc) symbol,
                                                     Locked = locked, Frozen = frozen\<rparr>, None), t2)))))"

definition GetFee ::
  "HTTP \<Rightarrow> 'fee list option unmarshal \<Rightarrow> trace
     \<Rightarrow> ('fee list option \<times> error option) outcome \<times> trace" where
  "GetFee c UnmarshalBinaryLengthPrefixed t =
     (let ((rawFee, err), t1) = callABCIQuery c (ParamABCIPrefix @ ''/fees'') None t
      in if err \<noteq> None then (Return (None, handed err), t1)
         else case rawFee of
           None \<Rightarrow> (Panic, t1)
         | Some rawFee \<Rightarrow>
             (let ((fees, err), t2) =
                    callUnmarshal BinaryLengthPrefixed UnmarshalBinaryLengthPrefixed
                      (GetValue (Response rawFee)) t1
              in (Return (fees, handed err), t2)))"

definition GetOpenOrders ::
  "HTTP \<Rightarrow> pkg \<Rightarrow> 'order list option unmarshal \<Rightarrow> bytes \<Rightarrow> string \<Rightarrow> trace
     \<Rightarrow> ('order list option \<times> error option) outcome \<times> trace" where
  "GetOpenOrders c p UnmarshalBinaryLengthPrefixed addr pair t =
     (let err = ValidatePair p pair
      in if err \<noteq> None then (Return (None, handed err), t)
         else
           (let ((rawOrders, err), t1) =
                  callABCIQuery c (''dex/openorders/'' @ pair @ ''/'' @ AccAddress_String p addr) None t
            in if err \<noteq> None then (Return (None, handed err), t1)
               else case rawOrders of
                 None \<Rightarrow> (Panic, t1)
               | Some rawOrders \<Rightarrow>
                   (let bz = GetValue (Response rawOrders);
                        openOrders = Some []
                    in if bz = None then (Return (openOrders, None), t1)
                       else
                         (let ((openOrders, err), t2) =
                                callUnmarshal BinaryLengthPrefixed UnmarshalBinaryLengthPrefixed bz t1
                          in if err \<noteq> None then (Return (None, handed err), t2)
                             else (Return (openOrders, None), t2)))))"

definition GetTradingPairs ::
  "HTTP \<Rightarrow> pkg \<Rightarrow> 'pair list option unmarshal \<Rightarrow> int \<Rightarrow> int \<Rightarrow> trace
     \<Rightarrow> ('pair list option \<times> error option) outcome \<times> trace" where
  "GetTradingPairs c p UnmarshalBinaryLengthPrefixed offset limit t =
     (let err = ValidateLimit p limit
      in if err \<noteq> None then (Return (None, handed err), t)
         else
           (let err = ValidateOffset p offset
            in if err \<noteq> None then (Return (None, handed err), t)
               else
                 (let ((rawTradePairs, err), t1) =
                        callABCIQuery c (''dex/pairs/'' @ Sprintf_d offset @ ''/'' @ Sprintf_d limit) None t
                  in if err \<noteq> None then (Return (None, handed err), t1)
                     else case rawTradePairs of
                       None \<Rightarrow> (Panic, t1)
                     | Some rawTradePairs \<Rightarrow>
                         (let pairs = Some []
                          in if GetValue (Response rawTradePairs) = None then (Return (pairs, None), t1)
                             else
                               (let ((pairs, err), t2) =
                                      callUnmarshal BinaryLengthPrefixed UnmarshalBinaryLengthPrefixed
                                        (GetValue (Response rawTradePairs)) t1
                                in (Return (pairs, handed err), t2))))))"

definition GetDepth ::
  "HTTP \<Rightarrow> pkg \<Rightarrow> 'book unmarshal \<Rightarrow> string \<Rightarrow> int \<Rightarrow> trace
     \<Rightarrow> ('book option \<times> error option) outcome \<times> trace" where
  "GetDepth c p UnmarshalBinaryLengthPrefixed tradePair level t =
     (let err = ValidatePair p tradePair
      in if err \<noteq> None then (Return (None, handed err), t)
         else
           (let err = ValidateDepthLevel p level
            in if err \<noteq> None then (Return (None, handed err), t)
               else
                 (let ((rawDepth, err), t1) =
                        callABCIQuery c (''dex/orderbook/'' @ tradePair @ ''/'' @ Sprintf_d level) None t
                  in if err \<noteq> None then (Return (None, handed err), t1)
                     else case rawDepth of
                       None \<Rightarrow> (Panic, t1)
                     | Some rawDepth \<Rightarrow>
                         (let ((ob, err), t2) =
                                callUnmarshal BinaryLengthPrefixed UnmarshalBinaryLengthPrefixed
                                  (GetValue (Response rawDepth)) t1
                          in if err \<noteq> None then (Return (None, handed err), t2)
                             else (Return (Some ob, None), t2)))))"

text \<open>
  In \<open>GetTimelocks\<close> the error of \<open>MarshalJSON\<close> is formatted into a new error by
  \<open>fmt.Errorf\<close> and the new error is dropped: there is no \<open>return\<close>, and the
  transport is called with whatever bytes the encoder left.
\<close>

definition GetTimelocks ::
  "HTTP \<Rightarrow> 'rec list option unmarshal \<Rightarrow> bytes \<Rightarrow> trace
     \<Rightarrow> ('rec list option \<times> error option) outcome \<times> trace" where
  "GetTimelocks c UnmarshalJSON addr t =
     (let params = QueryTimeLocksParams addr;
          (bz, err) = MarshalJSON c params;
          dropped = (case err of
                       Some e \<Rightarrow> Some (Errorf (''marshal params failed '' @ e))
                     | None \<Rightarrow> None);
          ((rawRecords, err), t1) =
            callABCIQuery c (''custom/'' @ TimeLockMsgRoute @ ''/'' @ ''timelocks'') bz t
      in if err \<noteq> None then (Return (None, handed err), t1)
         else case rawRecords of
           None \<Rightarrow> (Return (None, Some (Errorf ''zero records'')), t1)
         | Some rawRecords \<Rightarrow>
             (let ((records, err), t2) =
                    callUnmarshal JSON UnmarshalJSON (GetValue (Response rawRecords)) t1
              in if err \<noteq> None then (Return (None, handed err), t2)
                 else (Return (records, None), t2)))"

definition GetProposals ::
  "HTTP \<Rightarrow> pkg \<Rightarrow> 'proposal list option unmarshal \<Rightarrow> byte \<Rightarrow> int \<Rightarrow> trace
     \<Rightarrow> ('proposal list option \<times> error option) outcome \<times> trace" where
  "GetProposals c p UnmarshalJSON status numLatest t =
     (let params = QueryProposalsParams (if status \<noteq> StatusNil p then status else 0)
                                        (if numLatest > 0 then numLatest else 0);
          (bz, err) = MarshalJSON c params
      in if err \<noteq> None then (Return (None, handed err), t)
         else
           (let ((rawProposals, err), t1) = callABCIQuery c ''custom/gov/proposals'' bz t
            in if err \<noteq> None then (Return (None, handed err), t1)
               else case rawProposals of
                 None \<Rightarrow> (Panic, t1)
               | Some rawProposals \<Rightarrow>
                   (let ((proposals, err), t2) =
                          callUnmarshal JSON UnmarshalJSON (GetValue (Response rawProposals)) t1
                    in (Return (proposals, handed err), t2))))"

text \<open>\<open>types.Proposal\<close> is an interface: \<open>None\<close> is its nil value.\<close>

definition GetProposal ::
  "HTTP \<Rightarrow> 'proposal option unmarshal \<Rightarrow> int \<Rightarrow> trace
     \<Rightarrow> ('proposal option \<times> error option) outcome \<times> trace" where
  "GetProposal c UnmarshalJSON proposalId t =
     (let params = QueryProposalParams proposalId;
          (bz, err) = MarshalJSON c params
      in if err \<noteq> None then (Return (None, handed err), t)
         else
           (let t0 = t @ [PrintlnCall (string_of_bytes bz)];
                ((rawProposals, err), t1) = callABCIQuery c ''custom/gov/proposal'' bz t0
            in if err \<noteq> None then (Return (None, handed err), t1)
               else case rawProposals of
                 None \<Rightarrow> (Panic, t1)
               | Some rawProposals \<Rightarrow>
                   (let ((proposal, err), t2) =
                          callUnmarshal JSON UnmarshalJSON (GetValue (Response rawProposals)) t1
                    in (Return (proposal, handed err), t2))))"

definition GetSwapByCreator ::
  "HTTP \<Rightarrow> pkg \<Rightarrow> 'swap list option unmarshal \<Rightarrow> string \<Rightarrow> string \<Rightarrow> int \<Rightarrow> int \<Rightarrow> trace
     \<Rightarrow> ('swap list option \<times> error option) outcome \<times> trace" where
  "GetSwapByCreator c p UnmarshalJSON creatorAddr swapStatus offset limit t =
     (let (addr, err) = AccAddressFromBech32 p creatorAddr
      in if err \<noteq> None then (Return (None, handed err), t)
         else
           (let status = NewSwapStatusFromString p swapStatus;
                params = QuerySwapByCreatorParams addr status limit offset;
                (bz, err) = MarshalJSON c params
            in if err \<noteq> None then (Return (None, handed err), t)
               else
                 (let ((resp, err), t1) =
                        callABCIQuery c (''custom/'' @ AtomicSwapRoute p @ ''/'' @ ''swapcreator'') bz t
                  in if err \<noteq> None then (Return (None, handed err), t1)
                     else case resp of
                       None \<Rightarrow> (Panic, t1)
                     | Some resp \<Rightarrow>
                         (let ((result, err), t2) =
                                callUnmarshal JSON UnmarshalJSON (GetValue (Response resp)) t1
                          in if err \<noteq> None then (Return (None, handed err), t2)
                             else (Return (result, None), t2)))))"

definition GetSwapByRecipient ::
  "HTTP \<Rightarrow> pkg \<Rightarrow> 'swap list option unmarshal \<Rightarrow> string \<Rightarrow> string \<Rightarrow> int \<Rightarrow> int \<Rightarrow> trace
     \<Rightarrow> ('swap list option \<times> error option) outcome \<times> trace" where
  "GetSwapByRecipient c p UnmarshalJSON recipientAddr swapStatus offset limit t =
     (let (recipient, err) = AccAddressFromBech32 p recipientAddr
      in if err \<noteq> None then (Return (None, handed err), t)
         else
           (let status = NewSwapStatusFromString p swapStatus;
                params = QuerySwapByRecipientParams recipient status limit offset;
                (bz, err) = MarshalJSON c params
            in if err \<noteq> None then (Return (None, handed err), t)
               else
                 (let ((resp, err), t1) =
                        callABCIQuery c (''custom/'' @ AtomicSwapRoute p @ ''/'' @ ''swaprecipient'') bz t
                  in if err \<noteq> None then (Return (None, handed err), t1)
                     else case resp of
                       None \<Rightarrow> (Panic, t1)
                     | Some resp \<Rightarrow>
                         (let ((result, err), t2) =
                                callUnmarshal JSON UnmarshalJSON (GetValue (Response resp)) t1
                          in if err \<noteq> None then (Return (None, handed err), t2)
                             else (Return (result, None), t2)))))"

subsection \<open>Example collaborators\<close>

text \<open>
  A node that answers every path query with the same response and has no record under
  any store key; its codec encodes every parameter record as \<open>{}\<close>.
\<close>

definition node_answering :: "ResponseQuery \<Rightarrow> HTTP" where
  "node_answering r =
     \<lparr>ABCIQuery = (\<lambda>t path data. (Some \<lparr>Response = r\<rparr>, None)),
      QueryStore = (\<lambda>t key storeName. (None, None)),
      MarshalJSON = (\<lambda>params. (Some [0x7B, 0x7D], None))\<rparr>"

text \<open>
  A node that knows every token (a token-info query succeeds with one value byte) and
  no account (every other path query succeeds with no value).
\<close>

definition token_node :: HTTP where
  "token_node =
     \<lparr>ABCIQuery = (\<lambda>t path data.
        if take 12 path = ''tokens/info/''
        then (Some \<lparr>Response = \<lparr>Code = 0, Log = [], Value = Some [1]\<rparr>\<rparr>, None)
        else (Some \<lparr>Response = \<lparr>Code = 0, Log = [], Value = None\<rparr>\<rparr>, None)),
      QueryStore = (\<lambda>t key storeName. (None, None)),
      MarshalJSON = (\<lambda>params. (Some [0x7B, 0x7D], None))\<rparr>"


text \<open>Validators and an address encoding to run the queries with.\<close>

definition example_pkg :: pkg where
  "example_pkg =
     \<lparr>ValidateTxSearchQueryStr = (\<lambda>query. if query = [] then Some ''query is empty'' else None),
      ValidateOffset = (\<lambda>offset. if offset < 0 then Some ''offset out of range'' else None),
      ValidateLimit = (\<lambda>limit. if limit < 1 then Some ''limit out of range''
                                else if 1000 < limit then Some ''limit out of range'' else None),
      ValidateSymbol = (\<lambda>symbol. if symbol = [] then Some ''symbol is empty'' else None),
      ValidatePair = (\<lambda>pair. if CHR ''_'' \<in> set pair then None else Some ''pair is not BASE_QUOTE''),
      ValidateDepthLevel = (\<lambda>level. if level < 1 then Some ''depth level out of range'' else None),
      AccAddressFromBech32 = (\<lambda>text. if text = [] then (None, Some ''empty address string'')
                                        else (Some (bytes_of_string text), None)),
      AccAddress_String = string_of_bytes,
      NewSwapStatusFromString = (\<lambda>text. 0),
      StatusNil = 0,
      AtomicSwapRoute = ''atomic_swap''\<rparr>"

text \<open>
  A decoder that rejects empty input and leaves its target as it was, and decodes every
  other input to \<open>v\<close>.
\<close>

definition reject_empty :: "'a \<Rightarrow> 'a \<Rightarrow> 'a unmarshal" where
  "reject_empty target v =
     (\<lambda>bz. if len bz = 0 then (target, Some ''cannot decode empty bytes'') else (v, None))"

section \<open>Properties\<close>

subsection \<open>Auxiliary facts\<close>

lemma string_of_bytes_bnb: "string_of_bytes (Some [0x62, 0x6E, 0x62]) = ''bnb''"
  by (simp add: string_of_bytes_def elems_def char_of_def bit_Suc_0_iff)

lemma example_pkg_values:
  "ValidateTxSearchQueryStr example_pkg [] = Some ''query is empty''"
  "ValidateOffset example_pkg (- 1) = Some ''offset out of range''"
  "ValidateOffset example_pkg 0 = None"
  "ValidateLimit example_pkg 1001 = Some ''limit out of range''"
  "ValidateLimit example_pkg 5000 = Some ''limit out of range''"
  "ValidateLimit example_pkg 0 = Some ''limit out of range''"
  "ValidateLimit example_pkg 10 = None"
  "ValidateSymbol example_pkg [] = Some ''symbol is empty''"
  "ValidateSymbol example_pkg ''BNB'' = None"
  "ValidatePair example_pkg ''BNB'' = Some ''pair is not BASE_QUOTE''"
  "ValidatePair example_pkg ''BNB_BUSD'' = None"
  "ValidateDepthLevel example_pkg 0 = Some ''depth level out of range''"
  "ValidateDepthLevel example_pkg 5 = None"
  "AccAddressFromBech32 example_pkg [] = (None, Some ''empty address string'')"
  "AccAddressFromBech32 example_pkg ''bnb'' = (Some [0x62, 0x6E, 0x62], None)"
  "AtomicSwapRoute example_pkg = ''atomic_swap''"
  by (simp_all add: example_pkg_def bytes_of_string_def)

lemma GetBalances_loop_named:
  "GetBalances_loop (Some (NamedAccount n)) coins cs bals =
     Return (bals @ map (\<lambda>coin. \<lparr>Symbol = Denom coin, Free = AmountOf coins (Denom coin),
                                   Locked = AmountOf (LockedCoins n) (Denom coin),
                                   Frozen = AmountOf (FrozenCoins n) (Denom coin)\<rparr>) cs)"
  by (induction cs arbitrary: bals) (simp_all add: Let_def)

lemma GetBalances_named_account:
  assumes "ABCIQuery c t (''/account/'' @ AccAddress_String p addr) None = (Some result, None)"
    and "IsOK (Response result)"
    and "len (Value (Response result)) \<noteq> 0"
    and "cdc (Value (Response result)) = (Some (NamedAccount n), None)"
  shows "fst (GetBalances c p cdc addr t) =
     Return (Some (map (\<lambda>coin. \<lparr>Symbol = Denom coin, Free = AmountOf (Coins_of n) (Denom coin),
                                   Locked = AmountOf (LockedCoins n) (Denom coin),
                                   Frozen = AmountOf (FrozenCoins n) (Denom coin)\<rparr>) (Coins_of n)),
             None)"
  using assms
  by (simp add: GetBalances_def GetAccount_def callABCIQuery_def callUnmarshal_def GetValue_def
      handed_def GetBalances_loop_named Let_def)

lemma GetBalances_loop_plain:
  "cs \<noteq> [] \<Longrightarrow> GetBalances_loop (Some (PlainAccount held)) coins cs bals = Panic"
  by (cases cs) simp_all

lemma AmountOf_member:
  "distinct (map Denom coins) \<Longrightarrow> coin \<in> set coins \<Longrightarrow> AmountOf coins (Denom coin) = Amount coin"
  by (induction coins) force+



subsection \<open>Response classification\<close>

text \<open>
  C1. The claim: every query routes the raw response through one classification before
  decoding, and a response with a non-success status code yields an error carrying the
  remote log text and never reaches the codec. Evaluated on a node that answers with
  status code 1 and the log text \<open>internal error\<close>: \<open>GetOpenOrders\<close> returns the empty
  list and the nil error, and \<open>GetDepth\<close> hands the value bytes to the codec and
  returns the decoded book with the nil error. Neither reads the status code.
\<close>

theorem non_success_status_not_classified:
  "GetOpenOrders (node_answering \<lparr>Code = 1, Log = ''internal error'', Value = None\<rparr>) example_pkg
      (\<lambda>bz. (Some [0 :: nat], None)) (Some [0x62, 0x6E, 0x62]) ''BNB_BUSD'' [] =
     (Return (Some [], None), [ABCIQueryCall ''dex/openorders/BNB_BUSD/bnb'' None])
   \<and> GetDepth (node_answering \<lparr>Code = 1, Log = ''internal error'', Value = Some [1]\<rparr>) example_pkg
      (\<lambda>bz. (7 :: nat, None)) ''BNB_BUSD'' 5 [] =
     (Return (Some 7, None),
      [ABCIQueryCall ''dex/orderbook/BNB_BUSD/5'' None, UnmarshalCall BinaryLengthPrefixed (Some [1])])"
  by (simp add: GetOpenOrders_def GetDepth_def node_answering_def example_pkg_def callABCIQuery_def
      callUnmarshal_def GetValue_def handed_def string_of_bytes_bnb
      Sprintf_d_def decimal.simps digit_def char_of_def bit_Suc_0_iff Let_def)

text \<open>
  C7. The claim: for the list queries a success response with zero-length value bytes
  yields an empty sequence, not an absent result and not an error. Evaluated on a node
  that answers with the success code and no value, with a decoder that rejects empty
  input: \<open>ListAllTokens\<close> and \<open>GetFee\<close> hand the empty value to the codec and return
  its error (\<open>GetFee\<close> beside the nil slice). \<open>GetOpenOrders\<close> and
  \<open>GetTradingPairs\<close> test the value for nil first; these two do not.
\<close>

theorem empty_value_reaches_codec:
  "ListAllTokens (node_answering \<lparr>Code = 0, Log = [], Value = None\<rparr>) example_pkg
      (reject_empty (Some []) (Some [0 :: nat])) 0 10 [] =
     (Return (Some [], Some (Foreign ''cannot decode empty bytes'')),
      [ABCIQueryCall ''tokens/list/0/10'' None, UnmarshalCall BinaryLengthPrefixed None])
   \<and> GetFee (node_answering \<lparr>Code = 0, Log = [], Value = None\<rparr>)
      (reject_empty None (Some [0 :: nat])) [] =
     (Return (None, Some (Foreign ''cannot decode empty bytes'')),
      [ABCIQueryCall ''param/fees'' None, UnmarshalCall BinaryLengthPrefixed None])"
  by (simp add: ListAllTokens_def GetFee_def node_answering_def example_pkg_def callABCIQuery_def
      callUnmarshal_def GetValue_def handed_def reject_empty_def len_def ParamABCIPrefix_def
      Sprintf_d_def decimal.simps digit_def char_of_def bit_Suc_0_iff Let_def)

subsection \<open>Absent records\<close>

text \<open>
  C2, as stated, at an explicit input. The store has no record under the key of the
  hash: \<open>GetSwapByHash\<close> returns the zero-valued swap together with the error
  \<open>no matched swap record\<close>, not an absent value with the nil error.
\<close>

theorem GetSwapByHash_absent_is_error:
  "GetSwapByHash (node_answering \<lparr>Code = 0, Log = [], Value = None\<rparr>) (0 :: nat)
      (\<lambda>bz. (5, None)) (Some [0xAB]) [] =
     (Return (0, Some (Errorf ''no matched swap record'')),
      [QueryStoreCall (Some [0x01, 0xAB]) ''atomic_swap''])"
  by (simp add: GetSwapByHash_def node_answering_def callQueryStore_def elems_def
      AtomicSwapStoreName_def Let_def)

text \<open>
  C2, amended. When the record does not exist, the account lookups and the single
  time-lock lookup return the absent value with the nil error: \<open>GetAccount\<close> on a
  success response with zero-length value, \<open>GetCommitAccount\<close> on a nil store value,
  \<open>GetTimelock\<close> on the not-found status code. \<open>GetSwapByHash\<close> on a nil store value
  returns the zero-valued swap and the error \<open>no matched swap record\<close>.
\<close>

theorem absent_record_results:
  "(ABCIQuery c t (''/account/'' @ AccAddress_String p addr) None = (Some result, None) \<longrightarrow>
      IsOK (Response result) \<longrightarrow> len (Value (Response result)) = 0 \<longrightarrow>
      fst (GetAccount c p cdcA addr t) = Return (None, None))
   \<and> (QueryStore c t (Some (bytes_of_string ''account:'' @ elems addr)) ''acc'' = (None, None) \<longrightarrow>
      fst (GetCommitAccount c cdcA addr t) = Return (None, None))
   \<and> (MarshalJSON c (QueryTimeLockParams addr recordID) = (bz, None) \<longrightarrow>
      ABCIQuery c t ''custom/timelock/timelock'' bz = (Some rawRecord, None) \<longrightarrow>
      Code (Response rawRecord) = 458760 \<longrightarrow>
      fst (GetTimelock c cdcR addr recordID t) = Return (None, None))
   \<and> (QueryStore c t (Some (0x01 # elems h)) ''atomic_swap'' = (None, None) \<longrightarrow>
      fst (GetSwapByHash c zero cdcS h t) = Return (zero, Some (Errorf ''no matched swap record'')))"
  by (simp add: GetAccount_def GetCommitAccount_def GetTimelock_def GetSwapByHash_def
      callABCIQuery_def callQueryStore_def GetValue_def AccountStoreName_def
      AtomicSwapStoreName_def TimeLockMsgRoute_def TimeLockrcNotFoundErrorCode_def elems_def)

theorem absent_record_results_witness:
  "fst (GetAccount (node_answering \<lparr>Code = 0, Log = [], Value = None\<rparr>) example_pkg
          (\<lambda>bz. (None, Some ''bad'')) (Some [0x62, 0x6E, 0x62]) []) = Return (None, None)
   \<and> fst (GetCommitAccount (node_answering \<lparr>Code = 0, Log = [], Value = None\<rparr>)
          (\<lambda>bz. (None, Some ''bad'')) (Some [0x62, 0x6E, 0x62]) []) = Return (None, None)
   \<and> fst (GetTimelock (node_answering \<lparr>Code = 458760, Log = ''record not found'', Value = Some [1, 2, 3]\<rparr>)
          (\<lambda>bz. (0 :: nat, Some ''bad'')) (Some [0x62, 0x6E, 0x62]) 7 []) = Return (None, None)
   \<and> fst (GetSwapByHash (node_answering \<lparr>Code = 0, Log = [], Value = None\<rparr>) (0 :: nat)
          (\<lambda>bz. (5, None)) (Some [0xAB]) []) = Return (0, Some (Errorf ''no matched swap record''))"
  using absent_record_results [of "node_answering \<lparr>Code = 0, Log = [], Value = None\<rparr>" "[]" example_pkg
      "Some [0x62, 0x6E, 0x62]" "\<lparr>Response = \<lparr>Code = 0, Log = [], Value = None\<rparr>\<rparr>"
      "\<lambda>bz. (None, Some ''bad'')" 7 "Some [0x7B, 0x7D]"
      "\<lparr>Response = \<lparr>Code = 0, Log = [], Value = None\<rparr>\<rparr>" "\<lambda>bz. (0 :: nat, Some ''bad'')"
      "Some [0xAB]" "0 :: nat" "\<lambda>bz. (5, None)"]
    absent_record_results [of "node_answering \<lparr>Code = 458760, Log = ''record not found'', Value = Some [1, 2, 3]\<rparr>"
      "[]" example_pkg
      "Some [0x62, 0x6E, 0x62]" "\<lparr>Response = \<lparr>Code = 0, Log = [], Value = None\<rparr>\<rparr>"
      "\<lambda>bz. (None, Some ''bad'')" 7 "Some [0x7B, 0x7D]"
      "\<lparr>Response = \<lparr>Code = 458760, Log = ''record not found'', Value = Some [1, 2, 3]\<rparr>\<rparr>"
      "\<lambda>bz. (0 :: nat, Some ''bad'')"
      "Some [0xAB]" "0 :: nat" "\<lambda>bz. (5, None)"]
  by (simp add: node_answering_def IsOK_def len_def elems_def)

text \<open>
  C6. When the parameters were encoded and the transport answered the single time-lock
  lookup with a response whose status code is the not-found sentinel 458760, then,
  whatever the value bytes and the log text of the response, \<open>GetTimelock\<close> returns
  the nil record and the nil error; the value bytes never reach the codec.
\<close>

theorem GetTimelock_not_found:
  assumes "MarshalJSON c (QueryTimeLockParams addr recordID) = (bz, None)"
    and "ABCIQuery c t ''custom/timelock/timelock'' bz = (Some rawRecord, None)"
    and "Code (Response rawRecord) = 458760"
  shows "GetTimelock c cdc addr recordID t =
           (Return (None, None), t @ [ABCIQueryCall ''custom/timelock/timelock'' bz])"
  using assms
  by (simp add: GetTimelock_def callABCIQuery_def TimeLockMsgRoute_def
      TimeLockrcNotFoundErrorCode_def)

theorem GetTimelock_not_found_witness:
  "GetTimelock (node_answering \<lparr>Code = 458760, Log = ''record not found'', Value = Some [1, 2, 3]\<rparr>)
      (\<lambda>bz. (0 :: nat, Some ''bad json'')) (Some [9]) 7 [] =
     (Return (None, None), [ABCIQueryCall ''custom/timelock/timelock'' (Some [0x7B, 0x7D])])"
  using GetTimelock_not_found
      [of "node_answering \<lparr>Code = 458760, Log = ''record not found'', Value = Some [1, 2, 3]\<rparr>"
        "Some [9]" 7 "Some [0x7B, 0x7D]" "[]"
        "\<lparr>Response = \<lparr>Code = 458760, Log = ''record not found'', Value = Some [1, 2, 3]\<rparr>\<rparr>"
        "\<lambda>bz. (0 :: nat, Some ''bad json'')"]
  by (simp add: node_answering_def)

subsection \<open>Store keys\<close>

text \<open>
  C8. The store keys are part of the wire contract. For every address the
  committed-account lookup makes exactly one transport call, a read of store \<open>acc\<close>
  with the key made of the bytes of \<open>account:\<close> followed by the raw address bytes;
  for every random-number hash the swap-by-hash lookup makes exactly one transport call,
  a read of store \<open>atomic_swap\<close> with the key made of the byte 0x01 followed by the
  hash bytes.
\<close>

theorem store_key_wire_contract:
  "transport_calls (snd (GetCommitAccount c cdc addr t)) =
     transport_calls t @ [QueryStoreCall (Some (bytes_of_string ''account:'' @ elems addr)) ''acc'']
   \<and> transport_calls (snd (GetSwapByHash c z cdc' h t)) =
     transport_calls t @ [QueryStoreCall (Some (0x01 # elems h)) ''atomic_swap'']
   \<and> bytes_of_string ''account:'' = [0x61, 0x63, 0x63, 0x6F, 0x75, 0x6E, 0x74, 0x3A]"
  by (simp add: GetCommitAccount_def GetSwapByHash_def callQueryStore_def callUnmarshal_def
      transport_calls_def AccountStoreName_def AtomicSwapStoreName_def elems_def
      bytes_of_string_def Let_def split: prod.splits)

subsection \<open>Parameter validation\<close>

text \<open>
  C3. The claim: every query returns a validation failure, before any transport call,
  for a parameter that fails an applicable validator, a negative offset or an
  out-of-range limit among them. Evaluated with validators that reject the offset -1
  and the limit 5000: the paginated queries \<open>ListAllTokens\<close> and \<open>GetTradingPairs\<close>
  return the validator's failure and call nothing, while \<open>GetSwapByCreator\<close> and
  \<open>GetSwapByRecipient\<close>, paginated by offset and limit as well, call no validator on
  them, query the transport and return the decoded list with the nil error.
\<close>

theorem swap_queries_skip_validation:
  "ValidateOffset example_pkg (- 1) = Some ''offset out of range''
   \<and> ValidateLimit example_pkg 5000 = Some ''limit out of range''
   \<and> ListAllTokens (node_answering \<lparr>Code = 0, Log = [], Value = Some [0x5B, 0x5D]\<rparr>) example_pkg
        (\<lambda>bz. (Some ([] :: nat list), None)) (- 1) 5000 [] =
      (Return (None, Some (Foreign ''offset out of range'')), [])
   \<and> GetTradingPairs (node_answering \<lparr>Code = 0, Log = [], Value = Some [0x5B, 0x5D]\<rparr>) example_pkg
        (\<lambda>bz. (Some ([] :: nat list), None)) (- 1) 5000 [] =
      (Return (None, Some (Foreign ''limit out of range'')), [])
   \<and> GetSwapByCreator (node_answering \<lparr>Code = 0, Log = [], Value = Some [0x5B, 0x5D]\<rparr>) example_pkg
        (\<lambda>bz. (Some ([] :: nat list), None)) ''bnb'' ''Open'' (- 1) 5000 [] =
      (Return (Some [], None),
       [ABCIQueryCall ''custom/atomic_swap/swapcreator'' (Some [0x7B, 0x7D]),
        UnmarshalCall JSON (Some [0x5B, 0x5D])])
   \<and> GetSwapByRecipient (node_answering \<lparr>Code = 0, Log = [], Value = Some [0x5B, 0x5D]\<rparr>) example_pkg
        (\<lambda>bz. (Some ([] :: nat list), None)) ''bnb'' ''Open'' (- 1) 5000 [] =
      (Return (Some [], None),
       [ABCIQueryCall ''custom/atomic_swap/swaprecipient'' (Some [0x7B, 0x7D]),
        UnmarshalCall JSON (Some [0x5B, 0x5D])])"
  by (simp add: GetSwapByCreator_def GetSwapByRecipient_def ListAllTokens_def GetTradingPairs_def
      node_answering_def example_pkg_def callABCIQuery_def callUnmarshal_def GetValue_def
      handed_def Let_def)

text \<open>
  The queries that do call a validator call it before any other step and return its
  failure without any collaborator call, in the order of the source: the search query of
  \<open>TxInfoSearch\<close>; offset, then limit of \<open>ListAllTokens\<close>; the symbol of
  \<open>GetTokenInfo\<close> and \<open>GetBalance\<close>; the pair of \<open>GetOpenOrders\<close>; pair, then depth
  level of \<open>GetDepth\<close>; limit, then offset of \<open>GetTradingPairs\<close>. The two swap
  queries decode the address text first and return its failure before any transport
  call; offset and limit reach the encoder unchecked.
\<close>

lemma validators_before_transport:
  "(ValidateTxSearchQueryStr p query = Some eQuery \<longrightarrow>
      TxInfoSearch search p query prove page perPage t = (Return (None, Some (Foreign eQuery)), t))
   \<and> (ValidateOffset p offsetA = Some eOffset \<longrightarrow>
      ListAllTokens c p cdcT offsetA limitA t = (Return (None, Some (Foreign eOffset)), t))
   \<and> (ValidateOffset p offsetB = None \<longrightarrow> ValidateLimit p limitB = Some eLimit \<longrightarrow>
      ListAllTokens c p cdcT offsetB limitB t = (Return (None, Some (Foreign eLimit)), t))
   \<and> (ValidateSymbol p symbol = Some eSymbol \<longrightarrow>
      GetTokenInfo c p cdcI symbol t = (Return (None, Some (Foreign eSymbol)), t)
      \<and> GetBalance c p cdcI cdcA addr symbol t = (Return (None, Some (Foreign eSymbol)), t))
   \<and> (ValidatePair p badPair = Some ePair \<longrightarrow>
      GetOpenOrders c p cdcO addr badPair t = (Return (None, Some (Foreign ePair)), t)
      \<and> GetDepth c p cdcD badPair levelA t = (Return (None, Some (Foreign ePair)), t))
   \<and> (ValidatePair p goodPair = None \<longrightarrow> ValidateDepthLevel p badLevel = Some eLevel \<longrightarrow>
      GetDepth c p cdcD goodPair badLevel t = (Return (None, Some (Foreign eLevel)), t))
   \<and> (ValidateLimit p limitC = Some eLim \<longrightarrow>
      GetTradingPairs c p cdcP offsetC limitC t = (Return (None, Some (Foreign eLim)), t))
   \<and> (ValidateLimit p limitD = None \<longrightarrow> ValidateOffset p offsetD = Some eOff \<longrightarrow>
      GetTradingPairs c p cdcP offsetD limitD t = (Return (None, Some (Foreign eOff)), t))
   \<and> (AccAddressFromBech32 p badText = (aBad, Some eAddr) \<longrightarrow>
      GetSwapByCreator c p cdcS badText swapStatus offset limit t = (Return (None, Some (Foreign eAddr)), t)
      \<and> GetSwapByRecipient c p cdcS badText swapStatus offset limit t = (Return (None, Some (Foreign eAddr)), t))
   \<and> (AccAddressFromBech32 p addrText = (a, None) \<longrightarrow>
      transport_calls (snd (GetSwapByCreator c p cdcS addrText swapStatus offset limit t)) =
        (case MarshalJSON c (QuerySwapByCreatorParams a (NewSwapStatusFromString p swapStatus) limit offset) of
           (bz, None) \<Rightarrow> transport_calls t @ [ABCIQueryCall (''custom/'' @ AtomicSwapRoute p @ ''/swapcreator'') bz]
         | (bz, Some e') \<Rightarrow> transport_calls t)
      \<and> transport_calls (snd (GetSwapByRecipient c p cdcS addrText swapStatus offset limit t)) =
        (case MarshalJSON c (QuerySwapByRecipientParams a (NewSwapStatusFromString p swapStatus) limit offset) of
           (bz, None) \<Rightarrow> transport_calls t @ [ABCIQueryCall (''custom/'' @ AtomicSwapRoute p @ ''/swaprecipient'') bz]
         | (bz, Some e') \<Rightarrow> transport_calls t))"
proof (intro conjI impI)
  assume "ValidateTxSearchQueryStr p query = Some eQuery"
  then show "TxInfoSearch search p query prove page perPage t = (Return (None, Some (Foreign eQuery)), t)"
    by (simp add: TxInfoSearch_def handed_def)
next
  assume "ValidateOffset p offsetA = Some eOffset"
  then show "ListAllTokens c p cdcT offsetA limitA t = (Return (None, Some (Foreign eOffset)), t)"
    by (simp add: ListAllTokens_def handed_def)
next
  assume "ValidateOffset p offsetB = None" "ValidateLimit p limitB = Some eLimit"
  then show "ListAllTokens c p cdcT offsetB limitB t = (Return (None, Some (Foreign eLimit)), t)"
    by (simp add: ListAllTokens_def handed_def)
next
  assume "ValidateSymbol p symbol = Some eSymbol"
  then show "GetTokenInfo c p cdcI symbol t = (Return (None, Some (Foreign eSymbol)), t)"
    by (simp add: GetTokenInfo_def handed_def)
next
  assume "ValidateSymbol p symbol = Some eSymbol"
  then show "GetBalance c p cdcI cdcA addr symbol t = (Return (None, Some (Foreign eSymbol)), t)"
    by (simp add: GetBalance_def handed_def)
next
  assume "ValidatePair p badPair = Some ePair"
  then show "GetOpenOrders c p cdcO addr badPair t = (Return (None, Some (Foreign ePair)), t)"
    by (simp add: GetOpenOrders_def handed_def)
next
  assume "ValidatePair p badPair = Some ePair"
  then show "GetDepth c p cdcD badPair levelA t = (Return (None, Some (Foreign ePair)), t)"
    by (simp add: GetDepth_def handed_def)
next
  assume "ValidatePair p goodPair = None" "ValidateDepthLevel p badLevel = Some eLevel"
  then show "GetDepth c p cdcD goodPair badLevel t = (Return (None, Some (Foreign eLevel)), t)"
    by (simp add: GetDepth_def handed_def)
next
  assume "ValidateLimit p limitC = Some eLim"
  then show "GetTradingPairs c p cdcP offsetC limitC t = (Return (None, Some (Foreign eLim)), t)"
    by (simp add: GetTradingPairs_def handed_def)
next
  assume "ValidateLimit p limitD = None" "ValidateOffset p offsetD = Some eOff"
  then show "GetTradingPairs c p cdcP offsetD limitD t = (Return (None, Some (Foreign eOff)), t)"
    by (simp add: GetTradingPairs_def handed_def)
next
  assume "AccAddressFromBech32 p badText = (aBad, Some eAddr)"
  then show "GetSwapByCreator c p cdcS badText swapStatus offset limit t = (Return (None, Some (Foreign eAddr)), t)"
    by (simp add: GetSwapByCreator_def handed_def)
next
  assume "AccAddressFromBech32 p badText = (aBad, Some eAddr)"
  then show "GetSwapByRecipient c p cdcS badText swapStatus offset limit t = (Return (None, Some (Foreign eAddr)), t)"
    by (simp add: GetSwapByRecipient_def handed_def)
next
  assume "AccAddressFromBech32 p addrText = (a, None)"
  then show "transport_calls (snd (GetSwapByCreator c p cdcS addrText swapStatus offset limit t)) =
        (case MarshalJSON c (QuerySwapByCreatorParams a (NewSwapStatusFromString p swapStatus) limit offset) of
           (bz, None) \<Rightarrow> transport_calls t @ [ABCIQueryCall (''custom/'' @ AtomicSwapRoute p @ ''/swapcreator'') bz]
         | (bz, Some e') \<Rightarrow> transport_calls t)"
    by (simp add: GetSwapByCreator_def callABCIQuery_def callUnmarshal_def transport_calls_def
        Let_def split: prod.splits option.splits)
next
  assume "AccAddressFromBech32 p addrText = (a, None)"
  then show "transport_calls (snd (GetSwapByRecipient c p cdcS addrText swapStatus offset limit t)) =
        (case MarshalJSON c (QuerySwapByRecipientParams a (NewSwapStatusFromString p swapStatus) limit offset) of
           (bz, None) \<Rightarrow> transport_calls t @ [ABCIQueryCall (''custom/'' @ AtomicSwapRoute p @ ''/swaprecipient'') bz]
         | (bz, Some e') \<Rightarrow> transport_calls t)"
    by (simp add: GetSwapByRecipient_def callABCIQuery_def callUnmarshal_def transport_calls_def
        Let_def split: prod.splits option.splits)
qed

lemma validators_before_transport_example:
  "TxInfoSearch (\<lambda>t q pr pg pp. (Some [0 :: nat], None)) example_pkg [] True 1 10 [] =
     (Return (None, Some (Foreign ''query is empty'')), [])
   \<and> ListAllTokens token_node example_pkg (\<lambda>bz. (Some [0 :: nat], None)) (- 1) 10 [] =
     (Return (None, Some (Foreign ''offset out of range'')), [])
   \<and> ListAllTokens token_node example_pkg (\<lambda>bz. (Some [0 :: nat], None)) 0 1001 [] =
     (Return (None, Some (Foreign ''limit out of range'')), [])
   \<and> GetTokenInfo token_node example_pkg (\<lambda>bz. (0 :: nat, None)) [] [] =
     (Return (None, Some (Foreign ''symbol is empty'')), [])
   \<and> GetBalance token_node example_pkg (\<lambda>bz. (0 :: nat, None)) (\<lambda>bz. (None, None)) (Some [0x62, 0x6E, 0x62]) [] [] =
     (Return (None, Some (Foreign ''symbol is empty'')), [])
   \<and> GetOpenOrders token_node example_pkg (\<lambda>bz. (Some [0 :: nat], None)) (Some [0x62, 0x6E, 0x62]) ''BNB'' [] =
     (Return (None, Some (Foreign ''pair is not BASE_QUOTE'')), [])
   \<and> GetDepth token_node example_pkg (\<lambda>bz. (0 :: nat, None)) ''BNB'' 5 [] =
     (Return (None, Some (Foreign ''pair is not BASE_QUOTE'')), [])
   \<and> GetDepth token_node example_pkg (\<lambda>bz. (0 :: nat, None)) ''BNB_BUSD'' 0 [] =
     (Return (None, Some (Foreign ''depth level out of range'')), [])
   \<and> GetTradingPairs token_node example_pkg (\<lambda>bz. (Some [0 :: nat], None)) 0 0 [] =
     (Return (None, Some (Foreign ''limit out of range'')), [])
   \<and> GetTradingPairs token_node example_pkg (\<lambda>bz. (Some [0 :: nat], None)) (- 1) 10 [] =
     (Return (None, Some (Foreign ''offset out of range'')), [])
   \<and> GetSwapByCreator token_node example_pkg (\<lambda>bz. (Some [0 :: nat], None)) [] ''Open'' (- 1) 5000 [] =
     (Return (None, Some (Foreign ''empty address string'')), [])
   \<and> GetSwapByRecipient token_node example_pkg (\<lambda>bz. (Some [0 :: nat], None)) [] ''Open'' (- 1) 5000 [] =
     (Return (None, Some (Foreign ''empty address string'')), [])
   \<and> transport_calls (snd (GetSwapByCreator token_node example_pkg (\<lambda>bz. (Some [0 :: nat], None))
        ''bnb'' ''Open'' (- 1) 5000 [])) =
     [ABCIQueryCall ''custom/atomic_swap/swapcreator'' (Some [0x7B, 0x7D])]
   \<and> transport_calls (snd (GetSwapByRecipient token_node example_pkg (\<lambda>bz. (Some [0 :: nat], None))
        ''bnb'' ''Open'' (- 1) 5000 [])) =
     [ABCIQueryCall ''custom/atomic_swap/swaprecipient'' (Some [0x7B, 0x7D])]"
proof -
  note first = validators_before_transport [where p = example_pkg and c = token_node and t = "[]"
      and search = "\<lambda>t q pr pg pp. (Some [0 :: nat], None)"
      and query = "[]" and eQuery = "''query is empty''" and prove = True and page = 1 and perPage = 10
      and cdcT = "\<lambda>bz. (Some [0 :: nat], None)" and offsetA = "- 1" and limitA = 10 and eOffset = "''offset out of range''"
      and offsetB = 0 and limitB = 1001 and eLimit = "''limit out of range''"
      and cdcI = "\<lambda>bz. (0 :: nat, None)" and cdcA = "\<lambda>bz. (None, None)" and addr = "Some [0x62, 0x6E, 0x62]"
      and symbol = "[]" and eSymbol = "''symbol is empty''"
      and cdcO = "\<lambda>bz. (Some [0 :: nat], None)" and cdcD = "\<lambda>bz. (0 :: nat, None)"
      and badPair = "''BNB''" and levelA = 5 and ePair = "''pair is not BASE_QUOTE''"
      and goodPair = "''BNB_BUSD''" and badLevel = 0 and eLevel = "''depth level out of range''"
      and cdcP = "\<lambda>bz. (Some [0 :: nat], None)" and offsetC = 0 and limitC = 0 and eLim = "''limit out of range''"
      and offsetD = "- 1" and limitD = 10 and eOff = "''offset out of range''"
      and cdcS = "\<lambda>bz. (Some [0 :: nat], None)" and badText = "[]" and aBad = None and eAddr = "''empty address string''"
      and swapStatus = "''Open''" and offset = "- 1" and limit = 5000
      and addrText = "''bnb''" and a = "Some [0x62, 0x6E, 0x62]"]
  have m: "MarshalJSON token_node q = (Some [0x7B, 0x7D], None)" for q
    by (simp add: token_node_def)
  show ?thesis
    using first by (simp add: example_pkg_values m transport_calls_def)
qed

subsection \<open>Balances\<close>

text \<open>
  C4. The claim: \<open>GetBalances\<close> and \<open>GetBalance\<close> check for the named-account
  capability before using the locked and frozen coins, so the lookup never panics on an
  absent or a plain account. Evaluated: on a node that has no account under the address
  (a success response with no value, for which \<open>GetAccount\<close> returns nil and the nil
  error) \<open>GetBalances\<close> panics at \<open>account.GetCoins()\<close> and \<open>GetBalance\<close> panics at
  the type assertion; on a plain account \<open>GetBalance\<close> panics at the type assertion.
  The assertion is the one-result form, and the test \<open>nacc != nil\<close> that follows it
  cannot fail.
\<close>

theorem balances_panic_without_named_account:
  "GetBalances token_node example_pkg (\<lambda>bz. (None, None)) (Some [0x62, 0x6E, 0x62]) [] =
     (Panic, [ABCIQueryCall ''/account/bnb'' None])
   \<and> GetBalance token_node example_pkg (\<lambda>bz. (0 :: nat, None)) (\<lambda>bz. (None, None))
        (Some [0x62, 0x6E, 0x62]) ''BNB'' [] =
     (Panic, [ABCIQueryCall ''tokens/info/BNB'' None, UnmarshalCall BinaryLengthPrefixed (Some [1]),
              ABCIQueryCall ''/account/bnb'' None])
   \<and> GetBalance (node_answering \<lparr>Code = 0, Log = [], Value = Some [1]\<rparr>) example_pkg
        (\<lambda>bz. (0 :: nat, None)) (\<lambda>bz. (Some (PlainAccount [\<lparr>Denom = ''BNB'', Amount = 100\<rparr>]), None))
        (Some [0x62, 0x6E, 0x62]) ''BNB'' [] =
     (Panic, [ABCIQueryCall ''tokens/info/BNB'' None, UnmarshalCall BinaryLengthPrefixed (Some [1]),
              ABCIQueryCall ''/account/bnb'' None, UnmarshalCall BinaryBare (Some [1])])"
  by (simp add: GetBalances_def GetBalance_def GetAccount_def existsCC_def node_answering_def
      token_node_def example_pkg_def callABCIQuery_def callUnmarshal_def GetValue_def IsOK_def
      len_def handed_def string_of_bytes_bnb Let_def)

text \<open>
  C5. The claim: for every decoded account \<open>GetBalances\<close> returns one balance per
  symbol, with free the total amount and with locked and frozen taken from the locked
  and frozen coins if the account exposes them, else 0. Evaluated on the account of the
  spec's example, holding BNB 100 and BUSD 50: as a named account with BNB 10 locked the
  result is the two balances the spec lists; as a plain account with the same coins the
  call panics at the type assertion instead of reporting 0 locked and 0 frozen.
\<close>

theorem GetBalances_plain_account_panics:
  "GetBalances (node_answering \<lparr>Code = 0, Log = [], Value = Some [1]\<rparr>) example_pkg
      (\<lambda>bz. (Some (NamedAccount
         \<lparr>Coins_of = [\<lparr>Denom = ''BNB'', Amount = 100\<rparr>, \<lparr>Denom = ''BUSD'', Amount = 50\<rparr>],
          LockedCoins = [\<lparr>Denom = ''BNB'', Amount = 10\<rparr>], FrozenCoins = []\<rparr>), None))
      (Some [0x62, 0x6E, 0x62]) [] =
     (Return (Some [\<lparr>Symbol = ''BNB'', Free = 100, Locked = 10, Frozen = 0\<rparr>,
                    \<lparr>Symbol = ''BUSD'', Free = 50, Locked = 0, Frozen = 0\<rparr>], None),
      [ABCIQueryCall ''/account/bnb'' None, UnmarshalCall BinaryBare (Some [1])])
   \<and> GetBalances (node_answering \<lparr>Code = 0, Log = [], Value = Some [1]\<rparr>) example_pkg
      (\<lambda>bz. (Some (PlainAccount
         [\<lparr>Denom = ''BNB'', Amount = 100\<rparr>, \<lparr>Denom = ''BUSD'', Amount = 50\<rparr>]), None))
      (Some [0x62, 0x6E, 0x62]) [] =
     (Panic, [ABCIQueryCall ''/account/bnb'' None, UnmarshalCall BinaryBare (Some [1])])"
  by (simp add: GetBalances_def GetAccount_def node_answering_def
      example_pkg_def callABCIQuery_def callUnmarshal_def GetValue_def IsOK_def
      len_def handed_def string_of_bytes_bnb Let_def)




subsection \<open>Error propagation\<close>

text \<open>
  C9. The claim: every error arising inside a query, also a failure to encode the
  parameters, is passed up to the caller; none is silently discarded. Evaluated on a
  codec whose \<open>MarshalJSON\<close> fails: \<open>GetTimelocks\<close> drops the error, calls the
  transport with the nil bytes and returns the decoded list with the nil error.
\<close>

theorem GetTimelocks_drops_marshal_error:
  "GetTimelocks
      ((node_answering \<lparr>Code = 0, Log = [], Value = Some [0x5B, 0x5D]\<rparr>)
         \<lparr>MarshalJSON := (\<lambda>params. (None, Some ''unsupported type''))\<rparr>)
      (\<lambda>bz. (Some ([] :: nat list), None)) (Some [0x62, 0x6E, 0x62]) [] =
     (Return (Some [], None),
      [ABCIQueryCall ''custom/timelock/timelocks'' None, UnmarshalCall JSON (Some [0x5B, 0x5D])])"
  by (simp add: GetTimelocks_def node_answering_def callABCIQuery_def callUnmarshal_def
      GetValue_def TimeLockMsgRoute_def Let_def)

end
